theory Spec2Isabelle
  imports Main "HOL-Library.Word"
begin

unbundle bit_operations_syntax

section \<open>The page buffer and out-of-range reads\<close>

text \<open>
  \<^verbatim>\<open>src/index.c\<close> checks one B-tree index page. The page is a \<^verbatim>\<open>char *buffer\<close> of
  \<^verbatim>\<open>BLCKSZ\<close> bytes; every structure the checks look at is reached by pointer arithmetic
  \<^verbatim>\<open>buffer + offset\<close>. The model addresses the buffer by the byte offset from its start.
  A read that leaves \<open>[0, BLCKSZ)\<close> is undefined behaviour in C; here it is the value
  \<open>Inl (OutOfBounds off n)\<close> (a read of \<open>n\<close> bytes at offset \<open>off\<close>), which ends the
  function like a trap would. \<^verbatim>\<open>Assert\<close> is modelled as in an assert-enabled build: a
  failed assertion ends the function with \<open>Inl AssertFailed\<close>.
\<close>

datatype fault = OutOfBounds int nat | AssertFailed

type_synonym 'a res = "fault + 'a"

definition bind_res :: "'a res \<Rightarrow> ('a \<Rightarrow> 'b res) \<Rightarrow> 'b res" where
  "bind_res m f = (case m of Inl e \<Rightarrow> Inl e | Inr v \<Rightarrow> f v)"

type_synonym buffer = "int \<Rightarrow> 8 word"

text \<open>C conversions: \<^verbatim>\<open>(int)\<close> keeps the low 32 bits as a signed value, \<^verbatim>\<open>(size_t)\<close>
  the low 64 bits as an unsigned one (LP64).\<close>

definition to_int :: "int \<Rightarrow> int" where
  "to_int x = sint (word_of_int x :: 32 word)"

definition to_size_t :: "int \<Rightarrow> int" where
  "to_size_t x = x mod 2 ^ 64"

section \<open>Data the checks read\<close>

text \<open>The line pointer (slot) of a page: offset, length and a two-bit flag. The type
  is declared in PostgreSQL's \<^verbatim>\<open>storage/itemid.h\<close>; the source uses the three fields and
  the flag value \<^verbatim>\<open>LP_NORMAL\<close>. \<^verbatim>\<open>lp_off\<close> and \<^verbatim>\<open>lp_len\<close> are unsigned bit-fields that
  C promotes to \<^verbatim>\<open>int\<close>.\<close>

datatype lp_flag = LP_UNUSED | LP_NORMAL | LP_REDIRECT | LP_DEAD

record ItemIdData =
  lp_off :: nat
  lp_flags :: lp_flag
  lp_len :: nat

text \<open>\<^verbatim>\<open>PageHeader header\<close>: the fields the source reads, \<^verbatim>\<open>pd_special\<close> (a 16-bit
  offset) and the slot array \<^verbatim>\<open>pd_linp[]\<close>, which the source indexes without a check.\<close>

record PageHeaderData =
  pd_special :: "16 word"
  pd_linp :: "nat \<Rightarrow> ItemIdData"

text \<open>\<^verbatim>\<open>rel->rd_att->attrs[j]\<close>: the fields of an attribute descriptor the source reads.
  \<^verbatim>\<open>rel->rd_att->natts\<close> is the length of the list.\<close>

record Form_pg_attribute =
  attbyval :: bool
  attlen :: int
  attalign :: char

type_synonym Relation = "Form_pg_attribute list"

section \<open>What the included headers provide\<close>

text \<open>
  The macros, constants and the one function of another file (\<^verbatim>\<open>check_page_header\<close>,
  in \<^verbatim>\<open>common.c\<close>) that \<^verbatim>\<open>index.c\<close> uses but does not define are parameters of the model.
  A macro that dereferences \<^verbatim>\<open>buffer + off\<close> takes the buffer and the offset and
  returns a \<open>res\<close>: \<open>Inl\<close> when the read leaves the buffer.
  \<^item> \<open>sizeof_BTPageOpaque\<close> is \<^verbatim>\<open>sizeof(BTPageOpaque)\<close>; the source declares
    \<^verbatim>\<open>BTPageOpaque opaque = NULL\<close> and dereferences \<^verbatim>\<open>opaque->btpo.level\<close>, so
    \<^verbatim>\<open>BTPageOpaque\<close> is a pointer type and this is the size of a pointer.
  \<^item> \<open>sizeof_BTPageOpaqueData\<close> is the size of the structure \<^verbatim>\<open>opaque\<close> points to, the
    trailer in the special space. The source never uses it; it is here to state what
    "enough special space" means.
  \<^item> \<open>uninit_len offnum j\<close> is the indeterminate value of the automatic variable
    \<^verbatim>\<open>int len\<close>, declared without an initialiser in the body of the attribute loop, when
    iteration \<open>j\<close> for tuple \<open>offnum\<close> reads it.
\<close>

record pg_env =
  BLCKSZ :: int
  sizeof_BTPageOpaque :: int
  sizeof_BTPageOpaqueData :: int
  sizeof_IndexTupleData :: int
  BTREE_MAGIC :: "32 word"
  BTREE_VERSION :: "32 word"
  check_page_header :: "PageHeaderData \<Rightarrow> 32 word \<Rightarrow> 32 word"
  btm_magic :: "buffer \<Rightarrow> 32 word res"
  btm_version :: "buffer \<Rightarrow> 32 word res"
  P_ISDELETED :: "buffer \<Rightarrow> int \<Rightarrow> bool res"
  P_ISLEAF :: "buffer \<Rightarrow> int \<Rightarrow> bool res"
  btpo_level :: "buffer \<Rightarrow> int \<Rightarrow> 32 word res"
  P_FIRSTDATAKEY :: "buffer \<Rightarrow> int \<Rightarrow> nat res"
  PageGetMaxOffsetNumber :: "buffer \<Rightarrow> int res"
  IndexTupleSize :: "buffer \<Rightarrow> int \<Rightarrow> int res"
  t_info :: "buffer \<Rightarrow> int \<Rightarrow> 16 word res"
  IndexInfoFindDataOffset :: "16 word \<Rightarrow> int"
  IndexTupleHasNulls :: "buffer \<Rightarrow> int \<Rightarrow> bool res"
  att_isnull :: "nat \<Rightarrow> buffer \<Rightarrow> int \<Rightarrow> bool res"
  att_align_pointer :: "int \<Rightarrow> char \<Rightarrow> int \<Rightarrow> buffer \<Rightarrow> int \<Rightarrow> int res"
  VARSIZE_ANY :: "buffer \<Rightarrow> int \<Rightarrow> int res"
  VARATT_IS_COMPRESSED :: "buffer \<Rightarrow> int \<Rightarrow> bool res"
  VARRAWSIZE_4B_C :: "buffer \<Rightarrow> int \<Rightarrow> int res"
  MAXALIGN :: "int \<Rightarrow> int"
  uninit_len :: "nat \<Rightarrow> nat \<Rightarrow> int"

text \<open>\<^verbatim>\<open>BTREE_METAPAGE\<close>: "(block==0) means it's a meta-page" (comment in the source).\<close>

definition BTREE_METAPAGE :: "32 word" where
  "BTREE_METAPAGE = 0"

section \<open>check_index_page\<close>

text \<open>The condition of line 64, \<^verbatim>\<open>header->pd_special > BLCKSZ - sizeof(BTPageOpaque)\<close>,
  evaluated in \<^verbatim>\<open>size_t\<close> as C's conversions prescribe.\<close>

definition not_enough_special_space :: "pg_env \<Rightarrow> PageHeaderData \<Rightarrow> bool" where
  "not_enough_special_space env header =
     (uint (pd_special header) > to_size_t (BLCKSZ env - sizeof_BTPageOpaque env))"

text \<open>Lines 22 to 105. Every \<^verbatim>\<open>nerrs++\<close> of the source follows an
  \<^verbatim>\<open>ereport(WARNING, ...)\<close>; the model keeps the counter. The \<^verbatim>\<open>DEBUG\<close> reports are left
  out.\<close>

definition check_index_page ::
  "pg_env \<Rightarrow> Relation \<Rightarrow> PageHeaderData \<Rightarrow> buffer \<Rightarrow> 32 word \<Rightarrow> 32 word res" where
  "check_index_page env rel header buffer block =
     (let nerrs = check_page_header env header block in
      if block = BTREE_METAPAGE then
        bind_res (btm_magic env buffer) (\<lambda>magic.
        let nerrs = (if magic \<noteq> BTREE_MAGIC env then nerrs + 1 else nerrs) in
        bind_res (btm_version env buffer) (\<lambda>version.
        let nerrs = (if version \<noteq> BTREE_VERSION env then nerrs + 1 else nerrs) in
        Inr nerrs))
      else
        let opaque = uint (pd_special header);
            nerrs = (if not_enough_special_space env header then nerrs + 1 else nerrs) in
        bind_res (P_ISDELETED env buffer opaque) (\<lambda>deleted.
        if \<not> deleted then
          bind_res (P_ISLEAF env buffer opaque) (\<lambda>leaf.
          bind_res (btpo_level env buffer opaque) (\<lambda>level.
          if leaf then (if level \<noteq> 0 then Inr (nerrs + 1) else Inr nerrs)
          else (if level = 0 then Inr (nerrs + 1) else Inr nerrs)))
        else Inr nerrs))"

section \<open>check_index_tuple_attributes\<close>

text \<open>\<^verbatim>\<open>strnlen(s, maxlen)\<close> of the C library: the number of bytes before the first NUL
  among the first \<open>maxlen\<close> bytes at \<open>s\<close>, or \<open>maxlen\<close> when there is none. It reads the
  bytes \<open>s + k\<close> one after the other; \<open>k\<close> counts the bytes read so far.\<close>

function strnlen_from :: "int \<Rightarrow> buffer \<Rightarrow> int \<Rightarrow> int \<Rightarrow> nat \<Rightarrow> nat res" where
  "strnlen_from S buf s maxlen k =
     (if maxlen \<le> int k then Inr k
      else if s + int k < 0 \<or> S \<le> s + int k then Inl (OutOfBounds (s + int k) 1)
      else if buf (s + int k) = 0 then Inr k
      else strnlen_from S buf s maxlen (Suc k))"
  by pat_completeness auto
termination
  by (relation "measure (\<lambda>(S, buf, s, maxlen, k). nat (maxlen - int k))") auto

declare strnlen_from.simps [simp del]

definition strnlen :: "pg_env \<Rightarrow> buffer \<Rightarrow> int \<Rightarrow> int \<Rightarrow> nat res" where
  "strnlen env buffer s maxlen = strnlen_from (BLCKSZ env) buffer s maxlen 0"

text \<open>Lines 276 to 323: the length of attribute \<open>j\<close> at \<open>buffer + off\<close>. \<open>Halt\<close> is the
  \<^verbatim>\<open>++nerrs; break\<close> of a negative varlena length; \<open>Decoded len nerrs\<close> carries the
  length and the counter on to the bounds check. In the C-string branch the bound handed
  to \<^verbatim>\<open>strnlen\<close> is \<^verbatim>\<open>linp->lp_off + len + linp->lp_len - off\<close>, where \<^verbatim>\<open>len\<close> has
  not been assigned in this iteration.\<close>

datatype decoded = Halt "32 word" | Decoded int "32 word"

definition attribute_length ::
  "pg_env \<Rightarrow> buffer \<Rightarrow> ItemIdData \<Rightarrow> nat \<Rightarrow> nat \<Rightarrow> Form_pg_attribute \<Rightarrow> int \<Rightarrow> 32 word
     \<Rightarrow> decoded res" where
  "attribute_length env buffer linp offnum j attr off nerrs =
     (let is_varlena = (\<not> attbyval attr \<and> attlen attr = - 1);
          is_varwidth = (\<not> attbyval attr \<and> attlen attr < 0) in
      if is_varlena then
        bind_res (VARSIZE_ANY env buffer off) (\<lambda>len.
        if len < 0 then Inr (Halt (nerrs + 1))
        else
          bind_res (VARATT_IS_COMPRESSED env buffer off) (\<lambda>compressed.
          if compressed then
            bind_res (VARRAWSIZE_4B_C env buffer off) (\<lambda>rawsize.
            if rawsize < 0 \<or> rawsize > 1024 * 1024 then Inr (Decoded len (nerrs + 1))
            else Inr (Decoded len nerrs))
          else Inr (Decoded len nerrs)))
      else if is_varwidth then
        bind_res
          (strnlen env buffer off
             (to_size_t (to_int (int (lp_off linp) + uninit_len env offnum j
                                   + int (lp_len linp) - off))))
          (\<lambda>n. Inr (Decoded (to_int (int n + 1)) nerrs))
      else Inr (Decoded (attlen attr) nerrs))"

text \<open>Lines 253 to 348, one iteration of the attribute loop. \<open>Continue off nerrs\<close> goes
  on to the next attribute, \<open>Break off nerrs\<close> leaves the loop.\<close>

datatype step = Break int "32 word" | Continue int "32 word"

definition check_attribute ::
  "pg_env \<Rightarrow> buffer \<Rightarrow> ItemIdData \<Rightarrow> int \<Rightarrow> nat \<Rightarrow> nat \<Rightarrow> Form_pg_attribute \<Rightarrow> int \<Rightarrow> 32 word
     \<Rightarrow> step res" where
  "check_attribute env buffer linp dlen offnum j attr off nerrs =
     (let tuple = int (lp_off linp);
          bitmap = int (lp_off linp) + sizeof_IndexTupleData env in
      bind_res (IndexTupleHasNulls env buffer tuple) (\<lambda>hasnulls.
      bind_res (if hasnulls then att_isnull env j buffer bitmap else Inr False) (\<lambda>isnull.
      if isnull then Inr (Continue off nerrs)
      else
        bind_res (att_align_pointer env off (attalign attr) (attlen attr) buffer off) (\<lambda>off.
        bind_res (attribute_length env buffer linp offnum j attr off nerrs) (\<lambda>d.
        case d of
          Halt nerrs \<Rightarrow> Inr (Break off nerrs)
        | Decoded len nerrs \<Rightarrow>
            if len < 0 then Inl AssertFailed
            else if dlen > 0 \<and> off + len > int (lp_off linp) + int (lp_len linp)
              then Inr (Break off (nerrs + 1))
            else Inr (Continue (off + (if dlen > 0 then len else 0)) nerrs))))))"

text \<open>The loop \<^verbatim>\<open>for (j = 0; j < rel->rd_att->natts; j++)\<close>, from attribute \<open>j\<close> on.\<close>

fun check_attributes ::
  "pg_env \<Rightarrow> buffer \<Rightarrow> ItemIdData \<Rightarrow> int \<Rightarrow> nat \<Rightarrow> nat \<Rightarrow> Form_pg_attribute list \<Rightarrow> int
     \<Rightarrow> 32 word \<Rightarrow> (int \<times> 32 word) res" where
  "check_attributes env buffer linp dlen offnum j [] off nerrs = Inr (off, nerrs)"
| "check_attributes env buffer linp dlen offnum j (attr # attrs) off nerrs =
     (case check_attribute env buffer linp dlen offnum j attr off nerrs of
        Inl e \<Rightarrow> Inl e
      | Inr (Break off' nerrs') \<Rightarrow> Inr (off', nerrs')
      | Inr (Continue off' nerrs') \<Rightarrow>
          check_attributes env buffer linp dlen offnum (Suc j) attrs off' nerrs')"

text \<open>Lines 206 to 364.\<close>

definition check_index_tuple_attributes ::
  "pg_env \<Rightarrow> Relation \<Rightarrow> PageHeaderData \<Rightarrow> 32 word \<Rightarrow> nat \<Rightarrow> buffer \<Rightarrow> int \<Rightarrow> 32 word res" where
  "check_index_tuple_attributes env rel header block offnum buffer dlen =
     (let nerrs = 0;
          linp = pd_linp header (offnum - 1);
          tuple = int (lp_off linp);
          opaque = uint (pd_special header) in
      bind_res (t_info env buffer tuple) (\<lambda>ti.
      let off = to_int (int (lp_off linp) + IndexInfoFindDataOffset env ti) in
      bind_res (P_ISLEAF env buffer opaque) (\<lambda>leaf.
      bind_res (if \<not> leaf
                then bind_res (P_FIRSTDATAKEY env buffer opaque)
                       (\<lambda>first. Inr (offnum = first \<and> dlen = 0))
                else Inr False) (\<lambda>skip.
      if skip then Inr nerrs
      else
        bind_res (check_attributes env buffer linp dlen offnum 0 rel off nerrs) (\<lambda>(off, nerrs).
        if MAXALIGN env off > int (lp_off linp) + int (lp_len linp) then Inr (nerrs + 1)
        else Inr nerrs)))))"

section \<open>check_index_tuple\<close>

text \<open>Lines 188 and 189: the test on \<open>[A,B]\<close> (slot \<open>i\<close>) and \<open>[C,D]\<close> (slot \<open>j\<close>).\<close>

definition intersects :: "ItemIdData \<Rightarrow> ItemIdData \<Rightarrow> bool" where
  "intersects lp lp2 =
     (let a = int (lp_off lp); b = int (lp_off lp) + int (lp_len lp);
          c = int (lp_off lp2); d = int (lp_off lp2) + int (lp_len lp2) in
      (a < c \<and> c < b) \<or> (a < d \<and> d < b) \<or> (c < a \<and> a < d) \<or> (c < b \<and> b < d))"

text \<open>Lines 172 to 196: the loop \<^verbatim>\<open>for (j = 0; j < i; j++)\<close>, from \<open>j\<close> on.\<close>

function check_intersections_from :: "PageHeaderData \<Rightarrow> nat \<Rightarrow> nat \<Rightarrow> 32 word \<Rightarrow> 32 word" where
  "check_intersections_from header i j nerrs =
     (if j < i then
        (let lp2 = pd_linp header j in
         if \<not> (lp_flags lp2 = LP_NORMAL) then check_intersections_from header i (Suc j) nerrs
         else if intersects (pd_linp header i) lp2
           then check_intersections_from header i (Suc j) (nerrs + 1)
         else check_intersections_from header i (Suc j) nerrs)
      else nerrs)"
  by pat_completeness auto
termination
  by (relation "measure (\<lambda>(header, i, j, nerrs). i - j)") auto

declare check_intersections_from.simps [simp del]

text \<open>Lines 138 to 203. \<^verbatim>\<open>dlen\<close> is computed from the tuple header at
  \<^verbatim>\<open>buffer + lp->lp_off\<close> before anything else, for every slot. The slot number \<open>i + 1\<close>
  is passed on as an \<^verbatim>\<open>OffsetNumber\<close> (16 bits); a page has fewer than \<open>2 ^ 16\<close> line
  pointers, so the conversion keeps the value.\<close>

definition check_index_tuple ::
  "pg_env \<Rightarrow> Relation \<Rightarrow> PageHeaderData \<Rightarrow> 32 word \<Rightarrow> nat \<Rightarrow> buffer \<Rightarrow> 32 word res" where
  "check_index_tuple env rel header block i buffer =
     (let lp = pd_linp header i;
          itup = int (lp_off lp) in
      bind_res (IndexTupleSize env buffer itup) (\<lambda>tuple_size.
      bind_res (t_info env buffer itup) (\<lambda>ti.
      let dlen = to_int (tuple_size - IndexInfoFindDataOffset env ti);
          nerrs = check_intersections_from header i 0 0 in
      if lp_flags lp = LP_NORMAL then
        bind_res (check_index_tuple_attributes env rel header block (i + 1) buffer dlen)
          (\<lambda>e. Inr (nerrs + e))
      else Inr nerrs)))"

section \<open>check_index_tuples\<close>

text \<open>Lines 125 and 126: the loop \<^verbatim>\<open>for (i = 0; i < ntuples; i++)\<close>, from \<open>i\<close> on.\<close>

function check_index_tuples_from ::
  "pg_env \<Rightarrow> Relation \<Rightarrow> PageHeaderData \<Rightarrow> 32 word \<Rightarrow> buffer \<Rightarrow> int \<Rightarrow> nat \<Rightarrow> 32 word
     \<Rightarrow> 32 word res" where
  "check_index_tuples_from env rel header block buffer ntuples i nerrs =
     (if int i < ntuples then
        (case check_index_tuple env rel header block i buffer of
           Inl e \<Rightarrow> Inl e
         | Inr e \<Rightarrow> check_index_tuples_from env rel header block buffer ntuples (Suc i) (nerrs + e))
      else Inr nerrs)"
  by pat_completeness auto
termination
  by (relation "measure (\<lambda>(env, rel, header, block, buffer, ntuples, i, nerrs). nat ntuples - i)")
    auto

declare check_index_tuples_from.simps [simp del]

text \<open>Lines 108 to 134.\<close>

definition check_index_tuples ::
  "pg_env \<Rightarrow> Relation \<Rightarrow> PageHeaderData \<Rightarrow> buffer \<Rightarrow> 32 word \<Rightarrow> 32 word res" where
  "check_index_tuples env rel header buffer block =
     bind_res (PageGetMaxOffsetNumber env buffer) (\<lambda>ntuples.
     check_index_tuples_from env rel header block buffer ntuples 0 0)"

section \<open>The parameters on PostgreSQL 9.3, little-endian, LP64\<close>

text \<open>
  One instance of the parameters, used to run the checks on concrete pages: the
  declarations of PostgreSQL 9.3 (\<^verbatim>\<open>bufpage.h\<close>, \<^verbatim>\<open>itup.h\<close>, \<^verbatim>\<open>nbtree.h\<close>, \<^verbatim>\<open>postgres.h\<close>,
  \<^verbatim>\<open>tupmacs.h\<close>, \<^verbatim>\<open>c.h\<close>) as a little-endian 64-bit build lays them out, with the default
  block size. The general theorems below hold for every value of the parameters.
\<close>

definition ld8 :: "int \<Rightarrow> buffer \<Rightarrow> int \<Rightarrow> 8 word res" where
  "ld8 S buf off =
     (if 0 \<le> off \<and> off + 1 \<le> S then Inr (buf off) else Inl (OutOfBounds off 1))"

definition ld16 :: "int \<Rightarrow> buffer \<Rightarrow> int \<Rightarrow> 16 word res" where
  "ld16 S buf off =
     (if 0 \<le> off \<and> off + 2 \<le> S
      then Inr (word_of_int (uint (buf off) + 256 * uint (buf (off + 1))))
      else Inl (OutOfBounds off 2))"

definition ld32 :: "int \<Rightarrow> buffer \<Rightarrow> int \<Rightarrow> 32 word res" where
  "ld32 S buf off =
     (if 0 \<le> off \<and> off + 4 \<le> S
      then Inr (word_of_int (uint (buf off) + 256 * uint (buf (off + 1))
                  + 65536 * uint (buf (off + 2)) + 16777216 * uint (buf (off + 3))))
      else Inl (OutOfBounds off 4))"

text \<open>\<^verbatim>\<open>TYPEALIGN(ALIGNVAL, LEN)\<close> of \<^verbatim>\<open>c.h\<close>, for a power of two and a length that is
  not negative.\<close>

definition TYPEALIGN :: "int \<Rightarrow> int \<Rightarrow> int" where
  "TYPEALIGN a len = ((len + a - 1) div a) * a"

text \<open>\<^verbatim>\<open>BTPageOpaqueData\<close>: \<^verbatim>\<open>btpo_prev\<close> at 0, \<^verbatim>\<open>btpo_next\<close> at 4, \<^verbatim>\<open>btpo.level\<close> at 8,
  \<^verbatim>\<open>btpo_flags\<close> at 12, \<^verbatim>\<open>btpo_cycleid\<close> at 14; \<^verbatim>\<open>BTP_LEAF\<close> is bit 0 and \<^verbatim>\<open>BTP_DELETED\<close>
  bit 2 of the flags.\<close>

definition pg_P_ISDELETED :: "buffer \<Rightarrow> int \<Rightarrow> bool res" where
  "pg_P_ISDELETED buf opaque =
     bind_res (ld16 8192 buf (opaque + 12)) (\<lambda>flags. Inr (flags AND 4 \<noteq> 0))"

definition pg_P_ISLEAF :: "buffer \<Rightarrow> int \<Rightarrow> bool res" where
  "pg_P_ISLEAF buf opaque =
     bind_res (ld16 8192 buf (opaque + 12)) (\<lambda>flags. Inr (flags AND 1 \<noteq> 0))"

definition pg_btpo_level :: "buffer \<Rightarrow> int \<Rightarrow> 32 word res" where
  "pg_btpo_level buf opaque = ld32 8192 buf (opaque + 8)"

text \<open>\<^verbatim>\<open>P_FIRSTDATAKEY(opaque)\<close> is \<^verbatim>\<open>P_RIGHTMOST(opaque) ? P_HIKEY : P_FIRSTKEY\<close>, that is
  1 when \<^verbatim>\<open>btpo_next\<close> is \<^verbatim>\<open>P_NONE\<close> (0) and 2 otherwise.\<close>

definition pg_P_FIRSTDATAKEY :: "buffer \<Rightarrow> int \<Rightarrow> nat res" where
  "pg_P_FIRSTDATAKEY buf opaque =
     bind_res (ld32 8192 buf (opaque + 4)) (\<lambda>next. Inr (if next = 0 then 1 else 2))"

text \<open>\<^verbatim>\<open>PageGetMaxOffsetNumber\<close>: \<^verbatim>\<open>pd_lower\<close> is at offset 12 of the page header, the
  header is 24 bytes and a line pointer 4.\<close>

definition pg_PageGetMaxOffsetNumber :: "buffer \<Rightarrow> int res" where
  "pg_PageGetMaxOffsetNumber buf =
     bind_res (ld16 8192 buf 12) (\<lambda>pd_lower.
       Inr (if uint pd_lower \<le> 24 then 0 else (uint pd_lower - 24) div 4))"

text \<open>\<^verbatim>\<open>IndexTupleData\<close>: \<^verbatim>\<open>t_tid\<close> (6 bytes) and \<^verbatim>\<open>t_info\<close> at offset 6; the low 13 bits of
  \<^verbatim>\<open>t_info\<close> are the size, bit 15 says that a null bitmap follows.\<close>

definition pg_t_info :: "buffer \<Rightarrow> int \<Rightarrow> 16 word res" where
  "pg_t_info buf itup = ld16 8192 buf (itup + 6)"

definition pg_IndexTupleSize :: "buffer \<Rightarrow> int \<Rightarrow> int res" where
  "pg_IndexTupleSize buf itup =
     bind_res (ld16 8192 buf (itup + 6)) (\<lambda>ti. Inr (uint (ti AND 0x1FFF)))"

definition pg_IndexInfoFindDataOffset :: "16 word \<Rightarrow> int" where
  "pg_IndexInfoFindDataOffset ti = (if ti AND 0x8000 = 0 then 8 else 16)"

definition pg_IndexTupleHasNulls :: "buffer \<Rightarrow> int \<Rightarrow> bool res" where
  "pg_IndexTupleHasNulls buf itup =
     bind_res (ld16 8192 buf (itup + 6)) (\<lambda>ti. Inr (ti AND 0x8000 \<noteq> 0))"

text \<open>\<^verbatim>\<open>att_isnull(ATT, BITS)\<close> is \<^verbatim>\<open>!(BITS[ATT >> 3] & (1 << (ATT & 7)))\<close>.\<close>

definition pg_att_isnull :: "nat \<Rightarrow> buffer \<Rightarrow> int \<Rightarrow> bool res" where
  "pg_att_isnull att buf bits =
     bind_res (ld8 8192 buf (bits + int (att div 8))) (\<lambda>b. Inr (\<not> bit b (att mod 8)))"

definition pg_att_align_nominal :: "int \<Rightarrow> char \<Rightarrow> int" where
  "pg_att_align_nominal cur_offset al =
     (if al = CHR ''i'' then TYPEALIGN 4 cur_offset
      else if al = CHR ''c'' then cur_offset
      else if al = CHR ''d'' then TYPEALIGN 8 cur_offset
      else TYPEALIGN 2 cur_offset)"

text \<open>\<^verbatim>\<open>att_align_pointer\<close>: a varlena whose first byte is not a pad byte (not zero) is
  not aligned.\<close>

definition pg_att_align_pointer :: "int \<Rightarrow> char \<Rightarrow> int \<Rightarrow> buffer \<Rightarrow> int \<Rightarrow> int res" where
  "pg_att_align_pointer cur_offset al len buf attptr =
     (if len = - 1 then
        bind_res (ld8 8192 buf attptr) (\<lambda>b.
          if b \<noteq> 0 then Inr cur_offset else Inr (pg_att_align_nominal cur_offset al))
      else Inr (pg_att_align_nominal cur_offset al))"

text \<open>The varlena header, little-endian: first byte 1 is an external pointer whose length
  is the next byte; an odd first byte is a one-byte header with the length in its upper
  seven bits; otherwise a four-byte header with the length in its upper 30 bits, whose
  low two bits are 2 when the value is compressed. The raw size of a compressed value
  is the \<^verbatim>\<open>uint32\<close> after the header.\<close>

definition pg_VARSIZE_ANY :: "buffer \<Rightarrow> int \<Rightarrow> int res" where
  "pg_VARSIZE_ANY buf p =
     bind_res (ld8 8192 buf p) (\<lambda>b.
       if b = 1 then bind_res (ld8 8192 buf (p + 1)) (\<lambda>l. Inr (uint l))
       else if b AND 1 = 1 then Inr (uint (drop_bit 1 b AND 0x7F))
       else bind_res (ld32 8192 buf p) (\<lambda>w. Inr (uint (drop_bit 2 w AND 0x3FFFFFFF))))"

definition pg_VARATT_IS_COMPRESSED :: "buffer \<Rightarrow> int \<Rightarrow> bool res" where
  "pg_VARATT_IS_COMPRESSED buf p = bind_res (ld8 8192 buf p) (\<lambda>b. Inr (b AND 3 = 2))"

definition pg_VARRAWSIZE_4B_C :: "buffer \<Rightarrow> int \<Rightarrow> int res" where
  "pg_VARRAWSIZE_4B_C buf p = bind_res (ld32 8192 buf (p + 4)) (\<lambda>w. Inr (uint w))"

text \<open>The instance. \<^verbatim>\<open>BTPageGetMeta(buffer)\<close> is \<^verbatim>\<open>buffer + 24\<close>, with \<^verbatim>\<open>btm_magic\<close> and
  \<^verbatim>\<open>btm_version\<close> its first two \<^verbatim>\<open>uint32\<close>. The header handed to \<^verbatim>\<open>check_page_header\<close> is
  taken to pass that function's checks, and the unassigned \<^verbatim>\<open>len\<close> to hold 0.\<close>

definition pg93 :: pg_env where
  "pg93 =
     \<lparr> BLCKSZ = 8192,
       sizeof_BTPageOpaque = 8,
       sizeof_BTPageOpaqueData = 16,
       sizeof_IndexTupleData = 8,
       BTREE_MAGIC = 0x053162,
       BTREE_VERSION = 2,
       check_page_header = (\<lambda>header block. 0),
       btm_magic = (\<lambda>buf. ld32 8192 buf 24),
       btm_version = (\<lambda>buf. ld32 8192 buf 28),
       P_ISDELETED = pg_P_ISDELETED,
       P_ISLEAF = pg_P_ISLEAF,
       btpo_level = pg_btpo_level,
       P_FIRSTDATAKEY = pg_P_FIRSTDATAKEY,
       PageGetMaxOffsetNumber = pg_PageGetMaxOffsetNumber,
       IndexTupleSize = pg_IndexTupleSize,
       t_info = pg_t_info,
       IndexInfoFindDataOffset = pg_IndexInfoFindDataOffset,
       IndexTupleHasNulls = pg_IndexTupleHasNulls,
       att_isnull = pg_att_isnull,
       att_align_pointer = pg_att_align_pointer,
       VARSIZE_ANY = pg_VARSIZE_ANY,
       VARATT_IS_COMPRESSED = pg_VARATT_IS_COMPRESSED,
       VARRAWSIZE_4B_C = pg_VARRAWSIZE_4B_C,
       MAXALIGN = TYPEALIGN 8,
       uninit_len = (\<lambda>offnum j. 0) \<rparr>"

section \<open>Sample pages\<close>

text \<open>Pages of 8192 bytes, given by the bytes that are not zero, and headers given by the
  special-space offset and the slots; slots beyond the listed ones are unused.\<close>

definition slot :: "nat \<Rightarrow> lp_flag \<Rightarrow> nat \<Rightarrow> ItemIdData" where
  "slot off flag len = \<lparr> lp_off = off, lp_flags = flag, lp_len = len \<rparr>"

definition sample_header :: "16 word \<Rightarrow> ItemIdData list \<Rightarrow> PageHeaderData" where
  "sample_header special slots =
     \<lparr> pd_special = special,
       pd_linp = (\<lambda>i. if i < length slots then slots ! i else slot 0 LP_UNUSED 0) \<rparr>"

definition att_int4 :: Form_pg_attribute where
  "att_int4 = \<lparr> attbyval = True, attlen = 4, attalign = CHR ''i'' \<rparr>"

definition att_text :: Form_pg_attribute where
  "att_text = \<lparr> attbyval = False, attlen = - 1, attalign = CHR ''i'' \<rparr>"

definition att_cstring :: Form_pg_attribute where
  "att_cstring = \<lparr> attbyval = False, attlen = - 2, attalign = CHR ''c'' \<rparr>"

text \<open>Trailers at offset 8176: an inner page of level 0 (all bytes zero), a leaf of
  level 0, a leaf whose level field holds 3, and a deleted leaf whose level field holds
  the transaction id 7.\<close>

definition zero_page :: buffer where
  "zero_page = (\<lambda>a. 0)"

definition leaf_page :: buffer where
  "leaf_page = (\<lambda>a. 0)(8188 := 1)"

definition leaf_page_level3 :: buffer where
  "leaf_page_level3 = (\<lambda>a. 0)(8184 := 3, 8188 := 1)"

definition deleted_page :: buffer where
  "deleted_page = (\<lambda>a. 0)(8184 := 7, 8188 := 5)"

text \<open>A meta page with the magic number \<^verbatim>\<open>0x053162\<close> and version 2.\<close>

definition meta_page :: buffer where
  "meta_page = (\<lambda>a. 0)(24 := 0x62, 25 := 0x31, 26 := 0x05, 28 := 2)"

text \<open>Three slots on a leaf page: a normal tuple at \<open>[100, 120)\<close>, a dead slot at
  \<open>[110, 130)\<close> and a normal tuple at \<open>[112, 128)\<close>. The tuple headers at 100 and 112 give
  the sizes 20 and 16 (\<^verbatim>\<open>t_info\<close> at 106 and 118), without a null bitmap.\<close>

definition overlap_header :: PageHeaderData where
  "overlap_header =
     sample_header 8176 [slot 100 LP_NORMAL 20, slot 110 LP_DEAD 20, slot 112 LP_NORMAL 16]"

definition overlap_page :: buffer where
  "overlap_page = (\<lambda>a. 0)(106 := 20, 118 := 16, 8188 := 1)"

text \<open>Two normal slots with the same offset and length, \<open>[100, 120)\<close>.\<close>

definition identical_header :: PageHeaderData where
  "identical_header = sample_header 8176 [slot 100 LP_NORMAL 20, slot 100 LP_NORMAL 20]"

text \<open>A normal slot and a dead slot with the same offset and length, \<open>[100, 120)\<close>.\<close>

definition dead_identical_header :: PageHeaderData where
  "dead_identical_header = sample_header 8176 [slot 100 LP_NORMAL 20, slot 100 LP_DEAD 20]"

text \<open>A leaf page whose trailer starts at 8178: the flags are the two bytes at 8190.\<close>

definition leaf_page_8178 :: buffer where
  "leaf_page_8178 = (\<lambda>a. 0)(8190 := 1)"

text \<open>A header whose only slot is unused and points at offset 8190, two bytes before
  the end of the page.\<close>

definition far_slot_header :: PageHeaderData where
  "far_slot_header = sample_header 8176 [slot 8190 LP_UNUSED 0]"


text \<open>Leaf pages with one normal tuple at offset 96. Its header (\<^verbatim>\<open>t_info\<close> at 102)
  gives the size and no null bitmap, so the attributes start at 104. In the three pages
  with a varlena the first attribute has the four-byte header \<^verbatim>\<open>0x32\<close>: length 12,
  compressed; the raw size is the \<^verbatim>\<open>uint32\<close> at 108.
  \<^item> \<open>compressed_page_2M\<close>: tuple \<open>[96, 120)\<close>, raw size \<^verbatim>\<open>0x00200000\<close> (2 MiB);
  \<^item> \<open>compressed_page_0\<close>: tuple \<open>[96, 120)\<close>, raw size 0;
  \<^item> \<open>overflow_page\<close>: tuple \<open>[96, 112)\<close>, raw size \<^verbatim>\<open>0x80000000\<close> (2 GiB), so the varlena
    of 12 bytes at 104 ends after the tuple;
  \<^item> \<open>cstring_page\<close>: tuple \<open>[96, 112)\<close> with an \<^verbatim>\<open>int4\<close> at 104 and the four bytes
    \<^verbatim>\<open>AAAA\<close> at 108, followed after the tuple's end by \<^verbatim>\<open>BBBB\<close> and a NUL at 116.\<close>

definition tuple24_header :: PageHeaderData where
  "tuple24_header = sample_header 8176 [slot 96 LP_NORMAL 24]"

definition tuple16_header :: PageHeaderData where
  "tuple16_header = sample_header 8176 [slot 96 LP_NORMAL 16]"

definition compressed_page_2M :: buffer where
  "compressed_page_2M = (\<lambda>a. 0)(102 := 24, 104 := 0x32, 110 := 0x20, 8188 := 1)"

definition compressed_page_0 :: buffer where
  "compressed_page_0 = (\<lambda>a. 0)(102 := 24, 104 := 0x32, 8188 := 1)"

definition overflow_page :: buffer where
  "overflow_page = (\<lambda>a. 0)(102 := 16, 104 := 0x32, 111 := 0x80, 8188 := 1)"

definition cstring_page :: buffer where
  "cstring_page =
     (\<lambda>a. 0)(102 := 16, 108 := 0x41, 109 := 0x41, 110 := 0x41, 111 := 0x41,
             112 := 0x42, 113 := 0x42, 114 := 0x42, 115 := 0x42, 8188 := 1)"

text \<open>The page of \<open>overlap_header\<close> with \<^verbatim>\<open>pd_lower\<close> = 36 (bytes 12 and 13 of the page
  header), that is three line pointers.\<close>

definition three_slot_page :: buffer where
  "three_slot_page = (\<lambda>a. 0)(12 := 36, 106 := 20, 118 := 16, 8188 := 1)"

text \<open>Two variations of the instance. In \<open>stale_len_env\<close> the unassigned \<^verbatim>\<open>len\<close> holds 4,
  the length that the preceding \<^verbatim>\<open>int4\<close> attribute left in the variable. PostgreSQL's
  \<^verbatim>\<open>VARSIZE_ANY\<close> masks the length to 30 bits and is never negative; \<open>negative_len_env\<close>
  makes it \<open>- 1\<close> to reach line 289.\<close>

definition stale_len_env :: pg_env where
  "stale_len_env = pg93 \<lparr> uninit_len := (\<lambda>offnum j. 4) \<rparr>"

definition negative_len_env :: pg_env where
  "negative_len_env = pg93 \<lparr> VARSIZE_ANY := (\<lambda>buf p. Inr (- 1)) \<rparr>"

section \<open>Basic facts\<close>

lemma bind_res_Inr [simp]: "bind_res (Inr v) f = f v"
  by (simp add: bind_res_def)

lemma bind_res_Inl [simp]: "bind_res (Inl e) f = Inl e"
  by (simp add: bind_res_def)

lemma pg93_sel [simp]:
  "BLCKSZ pg93 = 8192"
  "sizeof_BTPageOpaque pg93 = 8"
  "sizeof_BTPageOpaqueData pg93 = 16"
  "sizeof_IndexTupleData pg93 = 8"
  "BTREE_MAGIC pg93 = 0x053162"
  "BTREE_VERSION pg93 = 2"
  "check_page_header pg93 = (\<lambda>header block. 0)"
  "btm_magic pg93 = (\<lambda>buf. ld32 8192 buf 24)"
  "btm_version pg93 = (\<lambda>buf. ld32 8192 buf 28)"
  "P_ISDELETED pg93 = pg_P_ISDELETED"
  "P_ISLEAF pg93 = pg_P_ISLEAF"
  "btpo_level pg93 = pg_btpo_level"
  "P_FIRSTDATAKEY pg93 = pg_P_FIRSTDATAKEY"
  "PageGetMaxOffsetNumber pg93 = pg_PageGetMaxOffsetNumber"
  "IndexTupleSize pg93 = pg_IndexTupleSize"
  "t_info pg93 = pg_t_info"
  "IndexInfoFindDataOffset pg93 = pg_IndexInfoFindDataOffset"
  "IndexTupleHasNulls pg93 = pg_IndexTupleHasNulls"
  "att_isnull pg93 = pg_att_isnull"
  "att_align_pointer pg93 = pg_att_align_pointer"
  "VARSIZE_ANY pg93 = pg_VARSIZE_ANY"
  "VARATT_IS_COMPRESSED pg93 = pg_VARATT_IS_COMPRESSED"
  "VARRAWSIZE_4B_C pg93 = pg_VARRAWSIZE_4B_C"
  "MAXALIGN pg93 = TYPEALIGN 8"
  "uninit_len pg93 = (\<lambda>offnum j. 0)"
  by (simp_all add: pg93_def)

lemmas pg93_reads =
  pg_P_ISDELETED_def pg_P_ISLEAF_def pg_btpo_level_def pg_P_FIRSTDATAKEY_def
  pg_PageGetMaxOffsetNumber_def pg_t_info_def pg_IndexTupleSize_def
  pg_IndexInfoFindDataOffset_def pg_IndexTupleHasNulls_def pg_att_isnull_def
  pg_att_align_nominal_def pg_att_align_pointer_def pg_VARSIZE_ANY_def
  pg_VARATT_IS_COMPRESSED_def pg_VARRAWSIZE_4B_C_def ld8_def ld16_def ld32_def TYPEALIGN_def

lemma slot_sel [simp]:
  "lp_off (slot off flag len) = off"
  "lp_flags (slot off flag len) = flag"
  "lp_len (slot off flag len) = len"
  by (simp_all add: slot_def)

lemma sample_special [simp]: "uint (pd_special (sample_header 8176 slots)) = 8176"
  by (simp add: sample_header_def)

lemma sample_special_space [simp]: "\<not> not_enough_special_space pg93 (sample_header 8176 slots)"
  by (simp add: not_enough_special_space_def sample_header_def to_size_t_def)

lemma negative_len_env_sel [simp]:
  "IndexTupleHasNulls negative_len_env = pg_IndexTupleHasNulls"
  "att_isnull negative_len_env = pg_att_isnull"
  "att_align_pointer negative_len_env = pg_att_align_pointer"
  "VARSIZE_ANY negative_len_env = (\<lambda>buf p. Inr (- 1))"
  "sizeof_IndexTupleData negative_len_env = 8"
  by (simp_all add: negative_len_env_def)

lemma stale_len_env_sel [simp]:
  "BLCKSZ stale_len_env = 8192"
  "sizeof_IndexTupleData stale_len_env = 8"
  "P_ISLEAF stale_len_env = pg_P_ISLEAF"
  "P_FIRSTDATAKEY stale_len_env = pg_P_FIRSTDATAKEY"
  "t_info stale_len_env = pg_t_info"
  "IndexInfoFindDataOffset stale_len_env = pg_IndexInfoFindDataOffset"
  "IndexTupleHasNulls stale_len_env = pg_IndexTupleHasNulls"
  "att_isnull stale_len_env = pg_att_isnull"
  "att_align_pointer stale_len_env = pg_att_align_pointer"
  "MAXALIGN stale_len_env = TYPEALIGN 8"
  "uninit_len stale_len_env = (\<lambda>offnum j. 4)"
  by (simp_all add: stale_len_env_def)

lemmas run_checks =
  check_index_tuple_def check_index_tuple_attributes_def check_attribute_def
  attribute_length_def check_intersections_from.simps strnlen_def strnlen_from.simps
  to_int_def to_size_t_def intersects_def

section \<open>The meta page (C8)\<close>

text \<open>
  C8. On the meta page (block 0) \<^verbatim>\<open>check_index_page\<close> adds to the count of
  \<^verbatim>\<open>check_page_header\<close> one error when the magic number differs from \<^verbatim>\<open>BTREE_MAGIC\<close> and,
  independently, one when the version differs from \<^verbatim>\<open>BTREE_VERSION\<close>: none when both
  match, one when exactly one field is wrong, two when both are. Both fields are read
  and compared whatever the outcome of the other comparison.
\<close>

theorem check_index_page_meta:
  assumes "block = BTREE_METAPAGE"
    and "btm_magic env buffer = Inr magic"
    and "btm_version env buffer = Inr version"
  shows "check_index_page env rel header buffer block =
           Inr (check_page_header env header block
                + (if magic \<noteq> BTREE_MAGIC env then 1 else 0)
                + (if version \<noteq> BTREE_VERSION env then 1 else 0))"
  using assms by (simp add: check_index_page_def Let_def)

theorem check_index_page_meta_witness:
  "btm_magic pg93 meta_page = Inr 0x053162 \<and> btm_version pg93 meta_page = Inr 2
   \<and> check_index_page pg93 [] (sample_header 8176 []) meta_page 0 = Inr 0
   \<and> btm_magic pg93 zero_page = Inr 0 \<and> btm_version pg93 zero_page = Inr 0
   \<and> check_index_page pg93 [] (sample_header 8176 []) zero_page 0 = Inr 2"
proof -
  have b: "(0 :: 32 word) = BTREE_METAPAGE" by (simp add: BTREE_METAPAGE_def)
  have m1: "btm_magic pg93 meta_page = Inr 0x053162"
    by (simp add: meta_page_def ld32_def)
  have v1: "btm_version pg93 meta_page = Inr 2"
    by (simp add: meta_page_def ld32_def)
  have m2: "btm_magic pg93 zero_page = Inr 0"
    by (simp add: zero_page_def ld32_def)
  have v2: "btm_version pg93 zero_page = Inr 0"
    by (simp add: zero_page_def ld32_def)
  from check_index_page_meta [OF b m1 v1, of "[]" "sample_header 8176 []"]
  have r1: "check_index_page pg93 [] (sample_header 8176 []) meta_page 0 = Inr 0"
    by simp
  from check_index_page_meta [OF b m2 v2, of "[]" "sample_header 8176 []"]
  have r2: "check_index_page pg93 [] (sample_header 8176 []) zero_page 0 = Inr 2"
    by simp
  from m1 v1 r1 m2 v2 r2 show ?thesis by simp
qed

section \<open>Leaf flag and level (C7)\<close>

text \<open>
  C7. On a regular page (block not 0) whose trailer can be read, \<^verbatim>\<open>check_index_page\<close>
  returns the count of \<^verbatim>\<open>check_page_header\<close>, plus one if the special-space test of
  line 64 fires, plus the level-consistency errors: none when the page is marked
  deleted, whatever the level field holds; otherwise exactly one when the page is a leaf
  with a level that is not zero or is not a leaf and has level zero, and none in the two
  remaining cases.
\<close>

theorem check_index_page_level:
  assumes "block \<noteq> BTREE_METAPAGE"
  shows "(P_ISDELETED env buffer (uint (pd_special header)) = Inr True \<longrightarrow>
            check_index_page env rel header buffer block =
              Inr (check_page_header env header block
                   + (if not_enough_special_space env header then 1 else 0)))
       \<and> (P_ISDELETED env buffer (uint (pd_special header)) = Inr False
            \<and> P_ISLEAF env buffer (uint (pd_special header)) = Inr leaf
            \<and> btpo_level env buffer (uint (pd_special header)) = Inr level \<longrightarrow>
            check_index_page env rel header buffer block =
              Inr (check_page_header env header block
                   + (if not_enough_special_space env header then 1 else 0)
                   + (if (leaf \<and> level \<noteq> 0) \<or> (\<not> leaf \<and> level = 0) then 1 else 0)))"
  using assms by (auto simp add: check_index_page_def Let_def)

theorem check_index_page_level_witness:
  "P_ISDELETED pg93 deleted_page 8176 = Inr True
   \<and> check_index_page pg93 [] (sample_header 8176 []) deleted_page 1 = Inr 0
   \<and> P_ISDELETED pg93 leaf_page_level3 8176 = Inr False
   \<and> P_ISLEAF pg93 leaf_page_level3 8176 = Inr True
   \<and> btpo_level pg93 leaf_page_level3 8176 = Inr 3
   \<and> check_index_page pg93 [] (sample_header 8176 []) leaf_page_level3 1 = Inr 1
   \<and> P_ISLEAF pg93 zero_page 8176 = Inr False
   \<and> btpo_level pg93 zero_page 8176 = Inr 0
   \<and> check_index_page pg93 [] (sample_header 8176 []) zero_page 1 = Inr 1
   \<and> check_index_page pg93 [] (sample_header 8176 []) leaf_page 1 = Inr 0"
proof -
  have b: "(1 :: 32 word) \<noteq> BTREE_METAPAGE" by (simp add: BTREE_METAPAGE_def)
  have d1: "P_ISDELETED pg93 deleted_page 8176 = Inr True"
    by (simp add: pg_P_ISDELETED_def ld16_def deleted_page_def)
  have d2: "P_ISDELETED pg93 leaf_page_level3 8176 = Inr False"
    by (simp add: pg_P_ISDELETED_def ld16_def leaf_page_level3_def)
  have l2: "P_ISLEAF pg93 leaf_page_level3 8176 = Inr True"
    by (simp add: pg_P_ISLEAF_def ld16_def leaf_page_level3_def)
  have v2: "btpo_level pg93 leaf_page_level3 8176 = Inr 3"
    by (simp add: pg_btpo_level_def ld32_def leaf_page_level3_def)
  have d3: "P_ISDELETED pg93 zero_page 8176 = Inr False"
    by (simp add: pg_P_ISDELETED_def ld16_def zero_page_def)
  have l3: "P_ISLEAF pg93 zero_page 8176 = Inr False"
    by (simp add: pg_P_ISLEAF_def ld16_def zero_page_def)
  have v3: "btpo_level pg93 zero_page 8176 = Inr 0"
    by (simp add: pg_btpo_level_def ld32_def zero_page_def)
  have d4: "P_ISDELETED pg93 leaf_page 8176 = Inr False"
    by (simp add: pg_P_ISDELETED_def ld16_def leaf_page_def)
  have l4: "P_ISLEAF pg93 leaf_page 8176 = Inr True"
    by (simp add: pg_P_ISLEAF_def ld16_def leaf_page_def)
  have v4: "btpo_level pg93 leaf_page 8176 = Inr 0"
    by (simp add: pg_btpo_level_def ld32_def leaf_page_def)
  note t = check_index_page_level [OF b, of pg93 _ "sample_header 8176 []" "[]"]
  from t [of deleted_page] d1
  have r1: "check_index_page pg93 [] (sample_header 8176 []) deleted_page 1 = Inr 0"
    by simp
  from t [of leaf_page_level3 True 3] d2 l2 v2
  have r2: "check_index_page pg93 [] (sample_header 8176 []) leaf_page_level3 1 = Inr 1"
    by simp
  from t [of zero_page False 0] d3 l3 v3
  have r3: "check_index_page pg93 [] (sample_header 8176 []) zero_page 1 = Inr 1"
    by simp
  from t [of leaf_page True 0] d4 l4 v4
  have r4: "check_index_page pg93 [] (sample_header 8176 []) leaf_page 1 = Inr 0"
    by simp
  from d1 r1 d2 l2 v2 r2 l3 v3 r3 r4 show ?thesis by simp
qed

section \<open>The intersection test\<close>

text \<open>The loop of lines 172 to 196 counts the earlier slots that are \<^verbatim>\<open>LP_NORMAL\<close> and pass
  the test of lines 188 and 189 against slot \<open>i\<close>.\<close>

lemma check_intersections_from_count:
  "j \<le> i \<Longrightarrow>
   check_intersections_from header i j nerrs =
     nerrs + of_nat (length (filter (\<lambda>k. lp_flags (pd_linp header k) = LP_NORMAL
                                     \<and> intersects (pd_linp header i) (pd_linp header k)) [j..<i]))"
proof (induction header i j nerrs rule: check_intersections_from.induct)
  case (1 header i j nerrs)
  show ?case
  proof (cases "j < i")
    case False
    with "1.prems" show ?thesis by (simp add: check_intersections_from.simps)
  next
    case True
    then have up: "[j..<i] = j # [Suc j..<i]" by (simp add: upt_conv_Cons)
    from True have le: "Suc j \<le> i" by simp
    show ?thesis
      using True "1.IH"(1)[OF True refl _ le] "1.IH"(2)[OF True refl _ _ le] "1.IH"(3)[OF True refl _ _ le]
      by (subst check_intersections_from.simps) (simp add: up Let_def)
  qed
qed

text \<open>What the four comparisons decide for two ranges that are not empty: the ranges
  share a byte and are not the same range. Two slots with equal offset and equal length
  satisfy none of the four strict comparisons.\<close>

lemma intersects_nonempty_iff:
  assumes "0 < lp_len lp" and "0 < lp_len lp2"
  shows "intersects lp lp2 \<longleftrightarrow>
           {lp_off lp ..< lp_off lp + lp_len lp} \<inter> {lp_off lp2 ..< lp_off lp2 + lp_len lp2} \<noteq> {}
           \<and> \<not> (lp_off lp = lp_off lp2 \<and> lp_len lp = lp_len lp2)"
proof -
  have "{lp_off lp ..< lp_off lp + lp_len lp} \<inter> {lp_off lp2 ..< lp_off lp2 + lp_len lp2} \<noteq> {}
          \<longleftrightarrow> max (lp_off lp) (lp_off lp2) < min (lp_off lp + lp_len lp) (lp_off lp2 + lp_len lp2)"
    by auto
  then show ?thesis
    using assms by (auto simp add: intersects_def Let_def)
qed

lemma overlap_header_slots [simp]:
  "pd_linp overlap_header 0 = slot 100 LP_NORMAL 20"
  "pd_linp overlap_header 1 = slot 110 LP_DEAD 20"
  "pd_linp overlap_header (Suc 0) = slot 110 LP_DEAD 20"
  "pd_linp overlap_header 2 = slot 112 LP_NORMAL 16"
  "pd_special overlap_header = 8176"
  by (simp_all add: overlap_header_def sample_header_def)

section \<open>Identical ranges (C2)\<close>

text \<open>
  C2. Two \<^verbatim>\<open>LP_NORMAL\<close> slots with the same offset 100 and the same length 20 overlap in
  all their 20 bytes, and the loop of \<^verbatim>\<open>check_index_tuple\<close> for slot 1 against slot 0
  counts no error: with \<open>a = c\<close> and \<open>b = d\<close> none of \<open>a < c < b\<close>, \<open>a < d < b\<close>,
  \<open>c < a < d\<close>, \<open>c < b < d\<close> holds.
\<close>

theorem identical_ranges_not_reported:
  "pd_linp identical_header 0 = slot 100 LP_NORMAL 20
   \<and> pd_linp identical_header 1 = slot 100 LP_NORMAL 20
   \<and> check_intersections_from identical_header 1 0 0 = 0"
  by (simp add: identical_header_def sample_header_def check_intersections_from.simps
      intersects_def)

section \<open>The flag of the slot under check (C10)\<close>

text \<open>What \<^verbatim>\<open>check_index_tuple\<close> returns when the tuple header of slot \<open>i\<close> can be read: the
  number of earlier \<^verbatim>\<open>LP_NORMAL\<close> slots that pass the test of lines 188 and 189 against
  slot \<open>i\<close>, to which only an \<^verbatim>\<open>LP_NORMAL\<close> slot adds the errors of its attributes. The
  flag of slot \<open>i\<close> plays no part in the count of the loop.\<close>

lemma check_index_tuple_count:
  assumes "IndexTupleSize env buffer (int (lp_off (pd_linp header i))) = Inr tuple_size"
    and "t_info env buffer (int (lp_off (pd_linp header i))) = Inr ti"
  shows "(lp_flags (pd_linp header i) \<noteq> LP_NORMAL \<longrightarrow>
            check_index_tuple env rel header block i buffer =
              Inr (of_nat (length (filter
                     (\<lambda>j. lp_flags (pd_linp header j) = LP_NORMAL
                          \<and> intersects (pd_linp header i) (pd_linp header j)) [0..<i]))))
       \<and> (lp_flags (pd_linp header i) = LP_NORMAL \<longrightarrow>
            check_index_tuple env rel header block i buffer =
              bind_res
                (check_index_tuple_attributes env rel header block (i + 1) buffer
                   (to_int (tuple_size - IndexInfoFindDataOffset env ti)))
                (\<lambda>e. Inr (of_nat (length (filter
                     (\<lambda>j. lp_flags (pd_linp header j) = LP_NORMAL
                          \<and> intersects (pd_linp header i) (pd_linp header j)) [0..<i])) + e)))"
  using assms by (simp add: check_index_tuple_def Let_def check_intersections_from_count bind_res_def)

text \<open>The same count in terms of the byte ranges, for a slot \<open>i\<close> that is not \<^verbatim>\<open>LP_NORMAL\<close>,
  when neither its range nor the range of an earlier \<^verbatim>\<open>LP_NORMAL\<close> slot is empty: the
  earlier \<^verbatim>\<open>LP_NORMAL\<close> slots that share a byte with slot \<open>i\<close> and differ from it in offset
  or length. An earlier slot with the offset and the length of slot \<open>i\<close> is not counted.\<close>

lemma check_index_tuple_non_normal_ranges:
  assumes "IndexTupleSize env buffer (int (lp_off (pd_linp header i))) = Inr tuple_size"
    and "t_info env buffer (int (lp_off (pd_linp header i))) = Inr ti"
    and "lp_flags (pd_linp header i) \<noteq> LP_NORMAL"
    and "0 < lp_len (pd_linp header i)"
    and "\<And>j. j < i \<Longrightarrow> lp_flags (pd_linp header j) = LP_NORMAL \<Longrightarrow> 0 < lp_len (pd_linp header j)"
  shows "check_index_tuple env rel header block i buffer =
           Inr (of_nat (length (filter
                  (\<lambda>j. lp_flags (pd_linp header j) = LP_NORMAL
                       \<and> {lp_off (pd_linp header i) ..<
                            lp_off (pd_linp header i) + lp_len (pd_linp header i)}
                          \<inter> {lp_off (pd_linp header j) ..<
                               lp_off (pd_linp header j) + lp_len (pd_linp header j)} \<noteq> {}
                       \<and> \<not> (lp_off (pd_linp header i) = lp_off (pd_linp header j)
                            \<and> lp_len (pd_linp header i) = lp_len (pd_linp header j)))
                  [0..<i])))"
proof -
  have "filter (\<lambda>j. lp_flags (pd_linp header j) = LP_NORMAL
                     \<and> intersects (pd_linp header i) (pd_linp header j)) [0..<i]
        = filter (\<lambda>j. lp_flags (pd_linp header j) = LP_NORMAL
                       \<and> {lp_off (pd_linp header i) ..<
                            lp_off (pd_linp header i) + lp_len (pd_linp header i)}
                          \<inter> {lp_off (pd_linp header j) ..<
                               lp_off (pd_linp header j) + lp_len (pd_linp header j)} \<noteq> {}
                       \<and> \<not> (lp_off (pd_linp header i) = lp_off (pd_linp header j)
                            \<and> lp_len (pd_linp header i) = lp_len (pd_linp header j)))
                 [0..<i]"
  proof (rule filter_cong [OF refl])
    fix j assume "j \<in> set [0..<i]"
    then have "j < i" by simp
    show "(lp_flags (pd_linp header j) = LP_NORMAL
             \<and> intersects (pd_linp header i) (pd_linp header j))
          = (lp_flags (pd_linp header j) = LP_NORMAL
             \<and> {lp_off (pd_linp header i) ..<
                  lp_off (pd_linp header i) + lp_len (pd_linp header i)}
                \<inter> {lp_off (pd_linp header j) ..<
                     lp_off (pd_linp header j) + lp_len (pd_linp header j)} \<noteq> {}
             \<and> \<not> (lp_off (pd_linp header i) = lp_off (pd_linp header j)
                  \<and> lp_len (pd_linp header i) = lp_len (pd_linp header j)))"
    proof (cases "lp_flags (pd_linp header j) = LP_NORMAL")
      case False
      then show ?thesis by simp
    next
      case True
      with \<open>j < i\<close> have "0 < lp_len (pd_linp header j)" by (rule assms(5))
      with assms(4) True show ?thesis
        by (simp only: intersects_nonempty_iff [of "pd_linp header i" "pd_linp header j"])
    qed
  qed
  with check_index_tuple_count [OF assms(1) assms(2), of rel block] assms(3)
  show ?thesis by simp
qed

lemma dead_identical_header_slots [simp]:
  "pd_linp dead_identical_header 0 = slot 100 LP_NORMAL 20"
  "pd_linp dead_identical_header 1 = slot 100 LP_DEAD 20"
  "pd_linp dead_identical_header (Suc 0) = slot 100 LP_DEAD 20"
  by (simp_all add: dead_identical_header_def sample_header_def)

text \<open>
  C10. The loop of lines 172 to 196 runs for every slot, whatever its flag, and only the
  call of \<^verbatim>\<open>check_index_tuple_attributes\<close> asks for \<^verbatim>\<open>LP_NORMAL\<close>: the dead slot
  \<open>[110, 130)\<close> that overlaps the earlier normal slot \<open>[100, 120)\<close> in ten bytes gets one
  error. But a dead slot \<open>[100, 120)\<close> whose range is the range of the earlier normal
  slot, and overlaps it in all 20 bytes, gets none: with \<open>a = c\<close> and \<open>b = d\<close> none of the
  four strict comparisons of lines 188 and 189 holds. It is the case that the loop misses
  for two normal slots as well (C2).
\<close>

theorem dead_identical_range_not_counted:
  "lp_flags (pd_linp dead_identical_header 0) = LP_NORMAL
   \<and> lp_flags (pd_linp dead_identical_header 1) = LP_DEAD
   \<and> {lp_off (pd_linp dead_identical_header 1) ..<
        lp_off (pd_linp dead_identical_header 1) + lp_len (pd_linp dead_identical_header 1)}
      \<inter> {lp_off (pd_linp dead_identical_header 0) ..<
           lp_off (pd_linp dead_identical_header 0) + lp_len (pd_linp dead_identical_header 0)}
      = {100 ..< 120}
   \<and> check_index_tuple pg93 [att_int4] dead_identical_header 1 1 leaf_page = Inr 0
   \<and> lp_flags (pd_linp overlap_header 1) = LP_DEAD
   \<and> check_index_tuple pg93 [att_int4] overlap_header 1 1 overlap_page = Inr 1"
  by (simp add: run_checks pg93_reads leaf_page_def overlap_page_def)

section \<open>The special-space test (C9)\<close>

text \<open>Without wrap-around the test of line 64 compares \<^verbatim>\<open>pd_special\<close> with the block size
  less the size of a pointer.\<close>

lemma special_space_threshold:
  assumes "0 \<le> BLCKSZ env - sizeof_BTPageOpaque env"
    and "BLCKSZ env - sizeof_BTPageOpaque env < 2 ^ 64"
  shows "not_enough_special_space env header \<longleftrightarrow>
           uint (pd_special header) > BLCKSZ env - sizeof_BTPageOpaque env"
  using assms by (simp add: not_enough_special_space_def to_size_t_def)

text \<open>
  C9. With 8192-byte blocks and 8-byte pointers the test of line 64 is
  \<open>pd_special > 8184\<close>. A regular page with \<^verbatim>\<open>pd_special\<close> = 8180 leaves 12 bytes, less
  than the 16 bytes of the trailer, and the test does not fire: \<^verbatim>\<open>check_index_page\<close> goes
  on to read the flags at 8192, outside the page. With \<^verbatim>\<open>pd_special\<close> = 8178 the
  trailer does not fit either, the fields that are read still lie inside the page, and
  the result is 0 errors.
\<close>

theorem special_space_pointer_size:
  "sizeof_BTPageOpaque pg93 = 8
   \<and> BLCKSZ pg93 - sizeof_BTPageOpaqueData pg93 < uint (pd_special (sample_header 8180 []))
   \<and> \<not> not_enough_special_space pg93 (sample_header 8180 [])
   \<and> check_index_page pg93 [] (sample_header 8180 []) leaf_page 1 = Inl (OutOfBounds 8192 2)
   \<and> BLCKSZ pg93 - sizeof_BTPageOpaqueData pg93 < uint (pd_special (sample_header 8178 []))
   \<and> check_index_page pg93 [] (sample_header 8178 []) leaf_page_8178 1 = Inr 0"
  by (simp add: not_enough_special_space_def to_size_t_def sample_header_def
      check_index_page_def BTREE_METAPAGE_def pg93_reads leaf_page_def leaf_page_8178_def)

section \<open>Reads outside the page (C1)\<close>

text \<open>
  C1, as stated, at a concrete page: slot 0 is unused and its \<^verbatim>\<open>lp_off\<close> is 8190.
  \<^verbatim>\<open>check_index_tuple\<close> computes \<^verbatim>\<open>dlen\<close> from \<^verbatim>\<open>t_info\<close> of the tuple header at
  \<^verbatim>\<open>buffer + 8190\<close>, the two bytes at 8196: a read outside \<open>[0, 8192)\<close>, and no error count
  is returned.
\<close>

theorem tuple_header_read_out_of_bounds:
  "pd_linp far_slot_header 0 = slot 8190 LP_UNUSED 0
   \<and> check_index_tuple pg93 [] far_slot_header 1 0 leaf_page = Inl (OutOfBounds 8196 2)"
  by (simp add: far_slot_header_def sample_header_def check_index_tuple_def pg93_reads)

lemma pg_IndexTupleSize_out_of_bounds:
  "8192 < off + 8 \<Longrightarrow> pg_IndexTupleSize buffer off = Inl (OutOfBounds (off + 6) 2)"
  by (simp add: pg_IndexTupleSize_def ld16_def)

text \<open>
  C1, amended. The check functions dereference the offsets they compute without
  comparing them with the bounds of the buffer, and an offset out of range is not turned
  into a counted error: when the read of the tuple header at \<^verbatim>\<open>buffer + lp_off\<close> leaves
  the buffer, \<^verbatim>\<open>check_index_tuple\<close> ends in that out-of-range read, for every slot and
  whatever its flag; when the read of the trailer at \<^verbatim>\<open>buffer + pd_special\<close> leaves the
  buffer, so do \<^verbatim>\<open>check_index_page\<close> on a regular page (whether or not the test of line
  64 has counted an error) and \<^verbatim>\<open>check_index_tuple_attributes\<close>. On 8192-byte pages with
  PostgreSQL's tuple header, every slot with \<open>lp_off + 8 > 8192\<close> makes
  \<^verbatim>\<open>check_index_tuple\<close> read the two bytes at \<open>lp_off + 6\<close> outside the buffer.
\<close>

theorem unchecked_reads:
  "(IndexTupleSize env buffer (int (lp_off (pd_linp header i))) = Inl f \<longrightarrow>
      check_index_tuple env rel header block i buffer = Inl f)
   \<and> (block \<noteq> BTREE_METAPAGE \<and> P_ISDELETED env buffer (uint (pd_special header)) = Inl f \<longrightarrow>
      check_index_page env rel header buffer block = Inl f)
   \<and> (t_info env buffer (int (lp_off (pd_linp header (offnum - 1)))) = Inr ti
      \<and> P_ISLEAF env buffer (uint (pd_special header)) = Inl f \<longrightarrow>
      check_index_tuple_attributes env rel header block offnum buffer dlen = Inl f)
   \<and> (BLCKSZ pg93 < int (lp_off (pd_linp header i)) + 8 \<longrightarrow>
      check_index_tuple pg93 rel header block i buffer =
        Inl (OutOfBounds (int (lp_off (pd_linp header i)) + 6) 2))"
  by (simp add: check_index_tuple_def check_index_page_def check_index_tuple_attributes_def
      Let_def pg_IndexTupleSize_out_of_bounds)

theorem unchecked_reads_witness:
  "IndexTupleSize pg93 leaf_page (int (lp_off (pd_linp far_slot_header 0))) = Inl (OutOfBounds 8196 2)
   \<and> check_index_tuple pg93 [] far_slot_header 1 0 leaf_page = Inl (OutOfBounds 8196 2)
   \<and> P_ISDELETED pg93 leaf_page (uint (pd_special (sample_header 8180 []))) = Inl (OutOfBounds 8192 2)
   \<and> check_index_page pg93 [] (sample_header 8180 []) leaf_page 1 = Inl (OutOfBounds 8192 2)
   \<and> t_info pg93 leaf_page (int (lp_off (pd_linp (sample_header 8180 []) (1 - 1)))) = Inr 0
   \<and> P_ISLEAF pg93 leaf_page (uint (pd_special (sample_header 8180 []))) = Inl (OutOfBounds 8192 2)
   \<and> check_index_tuple_attributes pg93 [] (sample_header 8180 []) 1 1 leaf_page 0
        = Inl (OutOfBounds 8192 2)
   \<and> BLCKSZ pg93 < int (lp_off (pd_linp far_slot_header 0)) + 8"
proof -
  have h1: "IndexTupleSize pg93 leaf_page (int (lp_off (pd_linp far_slot_header 0)))
              = Inl (OutOfBounds 8196 2)"
    by (simp add: far_slot_header_def sample_header_def pg93_reads)
  have h2: "(1 :: 32 word) \<noteq> BTREE_METAPAGE
              \<and> P_ISDELETED pg93 leaf_page (uint (pd_special (sample_header 8180 [])))
                  = Inl (OutOfBounds 8192 2)"
    by (simp add: BTREE_METAPAGE_def sample_header_def pg93_reads)
  have h3: "t_info pg93 leaf_page (int (lp_off (pd_linp (sample_header 8180 []) (1 - 1)))) = Inr 0
              \<and> P_ISLEAF pg93 leaf_page (uint (pd_special (sample_header 8180 [])))
                  = Inl (OutOfBounds 8192 2)"
    by (simp add: sample_header_def pg93_reads leaf_page_def)
  have h4: "BLCKSZ pg93 < int (lp_off (pd_linp far_slot_header 0)) + 8"
    by (simp add: far_slot_header_def sample_header_def)
  note t = unchecked_reads [of pg93 leaf_page _ 0 "OutOfBounds _ 2" "[]" "1 :: 32 word" 1 0 0]
  from t [of far_slot_header 8196] h1
  have r1: "check_index_tuple pg93 [] far_slot_header 1 0 leaf_page = Inl (OutOfBounds 8196 2)"
    by blast
  from t [of "sample_header 8180 []" 8192] h2
  have r2: "check_index_page pg93 [] (sample_header 8180 []) leaf_page 1
              = Inl (OutOfBounds 8192 2)"
    by blast
  from t [of "sample_header 8180 []" 8192] h3
  have r3: "check_index_tuple_attributes pg93 [] (sample_header 8180 []) 1 1 leaf_page 0
              = Inl (OutOfBounds 8192 2)"
    by blast
  from h1 h2 h3 h4 r1 r2 r3 show ?thesis by blast
qed

section \<open>A negative dlen (C6)\<close>






section \<open>The raw size of a compressed varlena (C3)\<close>

text \<open>
  C3. The tuple \<open>[96, 120)\<close> holds a compressed varlena of 12 bytes and an \<^verbatim>\<open>int4\<close>, and
  fits. With the raw size 2097152 (2 MiB, inside \<open>(0, 1 GiB]\<close>) the tuple gets one
  error, since the limit in line 302 is \<^verbatim>\<open>1024*1024\<close>; with the raw size 0 (outside
  \<open>(0, 1 GiB]\<close>) it gets none, since line 301 tests \<^verbatim>\<open>< 0\<close>.
\<close>

theorem raw_size_limit_is_1M:
  "VARATT_IS_COMPRESSED pg93 compressed_page_2M 104 = Inr True
   \<and> VARRAWSIZE_4B_C pg93 compressed_page_2M 104 = Inr 2097152
   \<and> check_index_tuple_attributes pg93 [att_text, att_int4] tuple24_header 1 1
        compressed_page_2M 16 = Inr 1
   \<and> VARATT_IS_COMPRESSED pg93 compressed_page_0 104 = Inr True
   \<and> VARRAWSIZE_4B_C pg93 compressed_page_0 104 = Inr 0
   \<and> check_index_tuple_attributes pg93 [att_text, att_int4] tuple24_header 1 1
        compressed_page_0 16 = Inr 0"
  by (simp add: run_checks pg93_reads compressed_page_2M_def compressed_page_0_def
      att_text_def att_int4_def tuple24_header_def sample_header_def)

section \<open>The bound of the C-string scan (C4)\<close>

text \<open>
  C4. The tuple \<open>[96, 112)\<close> holds an \<^verbatim>\<open>int4\<close> and a C string that starts at 108 and has
  no NUL before the tuple's end; four bytes remain in the tuple. When the unassigned
  \<^verbatim>\<open>len\<close> holds 4, the bound handed to \<^verbatim>\<open>strnlen\<close> is \<open>96 + 4 + 16 - 108 = 8\<close>: the scan
  reads the bytes 108 to 115, four of them after the tuple's end, and the length is
  \<open>8 + 1 = 9\<close>, not \<open>4 + 1\<close>. Only when the unassigned \<^verbatim>\<open>len\<close> holds 0 is the bound
  the rest of the tuple and the length \<open>4 + 1\<close>.
\<close>

theorem cstring_scan_past_tuple_end:
  "uninit_len stale_len_env 1 1 = 4
   \<and> int (lp_off (slot 96 LP_NORMAL 16)) + int (lp_len (slot 96 LP_NORMAL 16)) - 108 = 4
   \<and> strnlen stale_len_env cstring_page 108 (to_size_t (to_int (96 + 4 + 16 - 108))) = Inr 8
   \<and> attribute_length stale_len_env cstring_page (slot 96 LP_NORMAL 16) 1 1 att_cstring 108 0
        = Inr (Decoded 9 0)
   \<and> attribute_length pg93 cstring_page (slot 96 LP_NORMAL 16) 1 1 att_cstring 108 0
        = Inr (Decoded 5 0)
   \<and> check_index_tuple_attributes stale_len_env [att_int4, att_cstring] tuple16_header 1 1
        cstring_page 8 = Inr 1"
  by (simp add: run_checks pg93_reads cstring_page_def att_cstring_def att_int4_def
      tuple16_header_def sample_header_def)

section \<open>Errors that end the scan of a tuple, and the page total (C5)\<close>

lemma check_index_tuples_from_sum:
  assumes "\<And>k. i \<le> k \<Longrightarrow> int k < ntuples \<Longrightarrow>
             check_index_tuple env rel header block k buffer = Inr (e k)"
  shows "check_index_tuples_from env rel header block buffer ntuples i nerrs =
           Inr (nerrs + (\<Sum>k = i..<nat ntuples. e k))"
  using assms
proof (induction "nat ntuples - i" arbitrary: i nerrs)
  case 0
  then have "\<not> int i < ntuples" by simp
  moreover from 0 have "{i..<nat ntuples} = {}" by simp
  ultimately show ?case
    by (subst check_index_tuples_from.simps) simp
next
  case (Suc n)
  then have lt: "int i < ntuples" by linarith
  then have here: "check_index_tuple env rel header block i buffer = Inr (e i)"
    using Suc.prems by simp
  have n: "n = nat ntuples - Suc i" using Suc.hyps(2) by simp
  have rest: "check_index_tuples_from env rel header block buffer ntuples (Suc i) (nerrs + e i) =
                Inr (nerrs + e i + (\<Sum>k = Suc i..<nat ntuples. e k))"
    by (rule Suc.hyps(1) [OF n]) (simp add: Suc.prems)
  from lt have "i < nat ntuples" by linarith
  then have "(\<Sum>k = i..<nat ntuples. e k) = e i + (\<Sum>k = Suc i..<nat ntuples. e k)"
    by (simp add: sum.atLeast_Suc_lessThan)
  with lt here rest show ?case
    by (subst check_index_tuples_from.simps) (simp add: add.assoc)
qed

text \<open>The length decoded for an attribute comes with at most one more error, the one
  of lines 301 to 309: the attribute is a compressed varlena whose raw size is negative
  or greater than \<^verbatim>\<open>1024*1024\<close>.\<close>

lemma attribute_length_count:
  assumes "attribute_length env buffer linp offnum j attr off nerrs = Inr (Decoded len nerrs')"
  shows "nerrs' = nerrs +
           (if \<not> attbyval attr \<and> attlen attr = - 1
               \<and> VARATT_IS_COMPRESSED env buffer off = Inr True
               \<and> (\<exists>raw. VARRAWSIZE_4B_C env buffer off = Inr raw \<and> (raw < 0 \<or> raw > 1024 * 1024))
            then 1 else 0)"
  using assms
  by (auto simp add: attribute_length_def Let_def bind_res_def split: sum.splits if_splits)

text \<open>
  C5, as stated, at a concrete tuple: the first attribute of the tuple \<open>[96, 112)\<close> is a
  compressed varlena of 12 bytes at 104 with the raw size \<^verbatim>\<open>0x80000000\<close>. It ends after
  the tuple (\<open>104 + 12 > 112\<close>) while \<^verbatim>\<open>dlen\<close> is 8, and it gets two errors, not one: the
  one of line 307 for the raw size, which does not leave the loop, and the one of line
  338.
\<close>

theorem overflow_after_raw_size_error:
  "attribute_length pg93 overflow_page (slot 96 LP_NORMAL 16) 1 0 att_text 104 0
     = Inr (Decoded 12 1)
   \<and> int (lp_off (slot 96 LP_NORMAL 16)) + int (lp_len (slot 96 LP_NORMAL 16)) < 104 + 12
   \<and> check_attributes pg93 overflow_page (slot 96 LP_NORMAL 16) 8 1 0 [att_text, att_int4] 104 0
     = Inr (104, 2)
   \<and> check_index_tuple pg93 [att_text, att_int4] tuple16_header 1 0 overflow_page = Inr 2"
  by (simp add: run_checks pg93_reads overflow_page_def att_text_def att_int4_def
      tuple16_header_def sample_header_def)

text \<open>
  C5, amended. For an attribute that is not null:
  \<^item> when it is a varlena whose decoded length is negative, the loop counts exactly one
    error and ends at once, whatever attributes follow;
  \<^item> when its decoded length is not negative, \<^verbatim>\<open>dlen > 0\<close> and \<open>off + len\<close> exceeds the
    tuple's end, the loop adds exactly one error to the count that the decoding of the
    length left and ends at once, whatever attributes follow; that count is the count
    before the attribute, plus one if the attribute is a compressed varlena whose raw
    size is negative or above \<^verbatim>\<open>1024*1024\<close> (such an attribute gets two errors);
  \<^item> when every call of \<^verbatim>\<open>check_index_tuple\<close> for the slots \<open>0 \<le> i < ntuples\<close> returns,
    \<^verbatim>\<open>check_index_tuples\<close> returns the sum of their counts.
\<close>

theorem attribute_errors_halt_and_sum:
  "(IndexTupleHasNulls env buffer (int (lp_off linp)) = Inr hasnulls
    \<and> (hasnulls \<longrightarrow>
          att_isnull env j buffer (int (lp_off linp) + sizeof_IndexTupleData env) = Inr False)
    \<and> att_align_pointer env off (attalign attr) (attlen attr) buffer off = Inr off'
    \<and> \<not> attbyval attr \<and> attlen attr = - 1
    \<and> VARSIZE_ANY env buffer off' = Inr len \<and> len < 0 \<longrightarrow>
      check_attributes env buffer linp dlen offnum j (attr # attrs) off nerrs
        = Inr (off', nerrs + 1))
   \<and> (IndexTupleHasNulls env buffer (int (lp_off linp)) = Inr hasnulls
    \<and> (hasnulls \<longrightarrow>
          att_isnull env j buffer (int (lp_off linp) + sizeof_IndexTupleData env) = Inr False)
    \<and> att_align_pointer env off (attalign attr) (attlen attr) buffer off = Inr off'
    \<and> attribute_length env buffer linp offnum j attr off' nerrs = Inr (Decoded len nerrs')
    \<and> 0 \<le> len \<and> 0 < dlen \<and> int (lp_off linp) + int (lp_len linp) < off' + len \<longrightarrow>
      check_attributes env buffer linp dlen offnum j (attr # attrs) off nerrs
        = Inr (off', nerrs' + 1)
      \<and> nerrs' = nerrs +
           (if \<not> attbyval attr \<and> attlen attr = - 1
               \<and> VARATT_IS_COMPRESSED env buffer off' = Inr True
               \<and> (\<exists>raw. VARRAWSIZE_4B_C env buffer off' = Inr raw
                          \<and> (raw < 0 \<or> raw > 1024 * 1024))
            then 1 else 0))
   \<and> (PageGetMaxOffsetNumber env buffer = Inr ntuples
    \<and> (\<forall>i. int i < ntuples \<longrightarrow> check_index_tuple env rel header block i buffer = Inr (e i)) \<longrightarrow>
      check_index_tuples env rel header buffer block = Inr (\<Sum>i < nat ntuples. e i))"
proof (intro conjI impI)
  assume h: "IndexTupleHasNulls env buffer (int (lp_off linp)) = Inr hasnulls
    \<and> (hasnulls \<longrightarrow>
          att_isnull env j buffer (int (lp_off linp) + sizeof_IndexTupleData env) = Inr False)
    \<and> att_align_pointer env off (attalign attr) (attlen attr) buffer off = Inr off'
    \<and> \<not> attbyval attr \<and> attlen attr = - 1
    \<and> VARSIZE_ANY env buffer off' = Inr len \<and> len < 0"
  then have "check_attribute env buffer linp dlen offnum j attr off nerrs
               = Inr (Break off' (nerrs + 1))"
    by (cases hasnulls) (auto simp add: check_attribute_def attribute_length_def bind_res_def)
  then show "check_attributes env buffer linp dlen offnum j (attr # attrs) off nerrs
               = Inr (off', nerrs + 1)"
    by simp
next
  assume h: "IndexTupleHasNulls env buffer (int (lp_off linp)) = Inr hasnulls
    \<and> (hasnulls \<longrightarrow>
          att_isnull env j buffer (int (lp_off linp) + sizeof_IndexTupleData env) = Inr False)
    \<and> att_align_pointer env off (attalign attr) (attlen attr) buffer off = Inr off'
    \<and> attribute_length env buffer linp offnum j attr off' nerrs = Inr (Decoded len nerrs')
    \<and> 0 \<le> len \<and> 0 < dlen \<and> int (lp_off linp) + int (lp_len linp) < off' + len"
  then have "check_attribute env buffer linp dlen offnum j attr off nerrs
               = Inr (Break off' (nerrs' + 1))"
    by (cases hasnulls) (auto simp add: check_attribute_def bind_res_def)
  then show "check_attributes env buffer linp dlen offnum j (attr # attrs) off nerrs
               = Inr (off', nerrs' + 1)"
    by simp
  from h show "nerrs' = nerrs +
           (if \<not> attbyval attr \<and> attlen attr = - 1
               \<and> VARATT_IS_COMPRESSED env buffer off' = Inr True
               \<and> (\<exists>raw. VARRAWSIZE_4B_C env buffer off' = Inr raw
                          \<and> (raw < 0 \<or> raw > 1024 * 1024))
            then 1 else 0)"
    by (intro attribute_length_count [of env buffer linp offnum j attr off' nerrs len]) simp
next
  assume h: "PageGetMaxOffsetNumber env buffer = Inr ntuples
    \<and> (\<forall>i. int i < ntuples \<longrightarrow> check_index_tuple env rel header block i buffer = Inr (e i))"
  then have "check_index_tuples_from env rel header block buffer ntuples 0 0 =
               Inr (0 + (\<Sum>k = 0..<nat ntuples. e k))"
    by (intro check_index_tuples_from_sum) simp
  with h show "check_index_tuples env rel header buffer block = Inr (\<Sum>i < nat ntuples. e i)"
    by (simp add: check_index_tuples_def bind_res_def atLeast0LessThan)
qed

theorem attribute_errors_halt_and_sum_witness:
  "VARSIZE_ANY negative_len_env overflow_page 104 = Inr (- 1)
   \<and> check_attributes negative_len_env overflow_page (slot 96 LP_NORMAL 16) 8 1 0
        [att_text, att_int4] 104 0 = Inr (104, 1)
   \<and> attribute_length pg93 overflow_page (slot 96 LP_NORMAL 16) 1 2 att_int4 112 0
        = Inr (Decoded 4 0)
   \<and> check_attributes pg93 overflow_page (slot 96 LP_NORMAL 16) 8 1 2 [att_int4, att_text] 110 0
        = Inr (112, 1)
   \<and> PageGetMaxOffsetNumber pg93 three_slot_page = Inr 3
   \<and> check_index_tuple pg93 [att_int4] overlap_header 1 0 three_slot_page = Inr 0
   \<and> check_index_tuple pg93 [att_int4] overlap_header 1 1 three_slot_page = Inr 1
   \<and> check_index_tuple pg93 [att_int4] overlap_header 1 2 three_slot_page = Inr 1
   \<and> check_index_tuples pg93 [att_int4] overlap_header three_slot_page 1 = Inr 2"
proof -
  let ?linp = "slot 96 LP_NORMAL 16"
  have a: "IndexTupleHasNulls negative_len_env overflow_page (int (lp_off ?linp)) = Inr False
    \<and> (False \<longrightarrow> att_isnull negative_len_env 0 overflow_page
          (int (lp_off ?linp) + sizeof_IndexTupleData negative_len_env) = Inr False)
    \<and> att_align_pointer negative_len_env 104 (attalign att_text) (attlen att_text)
          overflow_page 104 = Inr 104
    \<and> \<not> attbyval att_text \<and> attlen att_text = - 1
    \<and> VARSIZE_ANY negative_len_env overflow_page 104 = Inr (- 1) \<and> (- 1 :: int) < 0"
    by (simp add: pg93_reads overflow_page_def att_text_def)
  have b: "IndexTupleHasNulls pg93 overflow_page (int (lp_off ?linp)) = Inr False
    \<and> (False \<longrightarrow> att_isnull pg93 2 overflow_page
          (int (lp_off ?linp) + sizeof_IndexTupleData pg93) = Inr False)
    \<and> att_align_pointer pg93 110 (attalign att_int4) (attlen att_int4) overflow_page 110
          = Inr 112
    \<and> attribute_length pg93 overflow_page ?linp 1 2 att_int4 112 0 = Inr (Decoded 4 0)
    \<and> (0 :: int) \<le> 4 \<and> (0 :: int) < 8 \<and> int (lp_off ?linp) + int (lp_len ?linp) < 112 + 4"
    by (simp add: attribute_length_def pg93_reads overflow_page_def att_int4_def)
  have t0: "check_index_tuple pg93 [att_int4] overlap_header 1 0 three_slot_page = Inr 0"
    by (simp add: run_checks pg93_reads three_slot_page_def att_int4_def)
  have t1: "check_index_tuple pg93 [att_int4] overlap_header 1 1 three_slot_page = Inr 1"
    by (simp add: run_checks pg93_reads three_slot_page_def att_int4_def)
  have t2: "check_index_tuple pg93 [att_int4] overlap_header 1 2 three_slot_page = Inr 1"
    by (simp add: run_checks pg93_reads three_slot_page_def att_int4_def)
  have n: "PageGetMaxOffsetNumber pg93 three_slot_page = Inr 3"
    by (simp add: pg93_reads three_slot_page_def)
  have "i = 0 \<or> i = 1 \<or> i = 2" if "int i < 3" for i :: nat
    using that by linarith
  with t0 t1 t2
  have c: "PageGetMaxOffsetNumber pg93 three_slot_page = Inr 3
    \<and> (\<forall>i. int i < 3 \<longrightarrow> check_index_tuple pg93 [att_int4] overlap_header 1 i three_slot_page
          = Inr (if i = 0 then 0 else 1))"
    using n by auto
  from a
  have r1: "check_attributes negative_len_env overflow_page ?linp 8 1 0
              [att_text, att_int4] 104 0 = Inr (104, 0 + 1)"
    by (rule attribute_errors_halt_and_sum [THEN conjunct1, THEN mp])
  from b
  have r2: "check_attributes pg93 overflow_page ?linp 8 1 2 [att_int4, att_text] 110 0
              = Inr (112, 0 + 1)"
    by (rule attribute_errors_halt_and_sum [THEN conjunct2, THEN conjunct1, THEN mp,
          THEN conjunct1])
  from c
  have r3: "check_index_tuples pg93 [att_int4] overlap_header three_slot_page 1
              = Inr (\<Sum>i < nat 3. if i = 0 then 0 else 1)"
    by (rule attribute_errors_halt_and_sum [THEN conjunct2, THEN conjunct2, THEN mp])
  have s: "(\<Sum>i < nat 3. if i = 0 then 0 else 1) = (2 :: 32 word)"
    by (simp add: lessThan_nat_numeral lessThan_Suc)
  from a b n t0 t1 t2 r1 r2 r3 s show ?thesis by simp
qed

end
